theory Spec2Isabelle
  imports Main "HOL-Library.AList"
begin

section \<open>Temporary docker containers: data model\<close>

text \<open>
  The package creates a docker container for a test, waits until the service inside it
  answers, and hands back the connection data with a function that removes the container.
  Everything the package asks of the outside (the docker engine, the network, the clock,
  the interval parser, the port selector, the UUID source) is a field of the record
  \<open>env\<close> below, and every such call is written into a list of events, in the order
  the source makes them. Calls to the logger are left out: no message is read back.
\<close>

text \<open>Durations are \<open>time.Duration\<close> values, counted in nanoseconds.\<close>

definition Millisecond :: nat where
  "Millisecond = 1000000"

definition Second :: nat where
  "Second = 1000000000"

definition dockerAddress :: string where
  "dockerAddress = ''127.0.0.1''"

definition maxWaitTime :: nat where
  "maxWaitTime = 5 * Second"

definition stepWaitTime :: nat where
  "stepWaitTime = 10 * Millisecond"

text \<open>
  Error values. \<open>External\<close> is an error made by a collaborator, \<open>ErrorsNew\<close> and
  \<open>Wrap\<close> are \<open>errors.New\<close> and \<open>errors.Wrap\<close>; the two \<open>fmt.Errorf\<close> values of
  the waiting loops keep their arguments (the container or the endpoint, and the budget).
\<close>

datatype error =
    External string
  | ErrorsNew string
  | Wrap error string
  | ContainerNotStarted string nat
  | CouldNotReach string nat

record PortBinding =
  Protocol :: string
  Internal :: int
  ExternalInterval :: string

record Options =
  Name :: string
  Image :: string
  Ports :: "PortBinding list"
  EnvironmentVariables :: "(string \<times> string) list"

text \<open>
  \<open>net.IP\<close>: the value \<open>net.ParseIP\<close> makes of a text. The parser belongs to the
  standard library and is kept as a constructor.
\<close>

datatype IP = ParseIP string

text \<open>
  A Go map is an association list without repeated keys: storing under a key that is
  present replaces the value (\<open>AList.update\<close>), reading is \<open>map_of\<close>. The field
  \<open>Ports\<close> of the source's \<open>ContainerInfo\<close> is \<open>InfoPorts\<close> here, since \<open>Options\<close>
  has a field of that name.
\<close>

record ContainerInfo =
  Identifier :: string
  Address :: IP
  InfoPorts :: "(PortBinding \<times> int) list"

text \<open>
  Modelled from the spec: the type \<open>interval.IntervalInteger\<close> of the package
  \<open>github.com/normegil/interval\<close>, which is not part of the sources; the spec calls it
  an inclusive integer range with a lowest and a highest value.
\<close>

record interval =
  imin :: int
  imax :: int

definition inInterval :: "interval \<Rightarrow> int \<Rightarrow> bool" where
  "inInterval i p = (imin i \<le> p \<and> p \<le> imax i)"

text \<open>\<open>nat.PortBinding\<close> of the docker client library.\<close>

record NatPortBinding =
  HostIP :: string
  HostPort :: string

record ContainerConfig =
  ConfigImage :: string
  ExposedPorts :: "string set"
  Env :: "string list"

record HostConfig =
  PortBindings :: "(string \<times> NatPortBinding list) list"

record ContainerCreateCreatedBody =
  ID :: string
  Warnings :: "string list"

text \<open>The calls that leave the package, as they are recorded.\<close>

datatype event =
    EvNewEnvClient
  | EvImageList
  | EvImagePull string
  | EvSelectPortExcluding IP interval "int list"
  | EvContainerCreate ContainerConfig HostConfig string
  | EvContainerStart string
  | EvContainerInspect string
  | EvContainerRemove string bool
  | EvDial string string
  | EvClose
  | EvSleep nat

text \<open>
  The outside world. A result that the source asks for once is a value; a result that is
  asked for repeatedly depends on the moment of the call (the waiting loops) or on the
  number of the call (the port selector, which looks at the ports bound on the host).
  \<open>imagePull\<close> gives the outcomes of decoding the pulled stream: \<open>None\<close> for an
  event that decodes, \<open>Some e\<close> for a decoding error, the end of the list for
  \<open>io.EOF\<close>. \<open>latency\<close> is the time an inspection, a dial or a close takes,
  \<open>oversleep\<close> the time \<open>time.Sleep\<close> sleeps beyond what was asked.
  \<open>portsOrder\<close> and \<open>varsOrder\<close> are the orders in which \<open>range\<close> walks the two
  maps, which Go leaves open.
\<close>

record env =
  newEnvClient :: "error option"
  imageList :: "error + string list list"
  imagePull :: "error + error option list"
  newRandom :: "error + string"
  parseIntervalInteger :: "string \<Rightarrow> error + interval"
  selectPortExcluding :: "nat \<Rightarrow> IP \<Rightarrow> interval \<Rightarrow> int list \<Rightarrow> int"
  portsOrder :: "(PortBinding \<times> int) list \<Rightarrow> (PortBinding \<times> int) list"
  varsOrder :: "(string \<times> string) list \<Rightarrow> (string \<times> string) list"
  containerCreate :: "error + ContainerCreateCreatedBody"
  containerStart :: "error option"
  containerInspect :: "nat \<Rightarrow> string \<Rightarrow> error + bool"
  containerRemove :: "error option"
  dial :: "nat \<Rightarrow> string \<Rightarrow> string \<Rightarrow> error option"
  connClose :: "nat \<Rightarrow> error option"
  latency :: "nat \<Rightarrow> nat"
  oversleep :: "nat \<Rightarrow> nat"

section \<open>Translating the request for the engine\<close>

text \<open>\<open>strconv.Itoa\<close>: the decimal digits, with a minus sign below zero.\<close>

definition digit :: "nat \<Rightarrow> char" where
  "digit n = ''0123456789'' ! n"

function digits :: "nat \<Rightarrow> string" where
  "digits n = (if n < 10 then [digit n] else digits (n div 10) @ [digit (n mod 10)])"
  by pat_completeness auto
termination
  by (relation "measure (\<lambda>n. n)") auto

definition Itoa :: "int \<Rightarrow> string" where
  "Itoa i = (if i < 0 then CHR ''-'' # digits (nat (- i)) else digits (nat i))"

text \<open>The key \<open>nat.Port(strconv.Itoa(binding.Internal) + "/" + binding.Protocol)\<close>.\<close>

definition natPort :: "PortBinding \<Rightarrow> string" where
  "natPort binding = Itoa (Internal binding) @ ''/'' @ Protocol binding"

definition checkOptions :: "Options \<Rightarrow> error option" where
  "checkOptions options =
     (if Ports options = [] then
        Some (ErrorsNew ''At least one port should be open for external communication'')
      else None)"

fun toExposedPortsLoop :: "PortBinding list \<Rightarrow> string set \<Rightarrow> string set" where
  "toExposedPortsLoop [] exposed = exposed"
| "toExposedPortsLoop (binding # rest) exposed =
     toExposedPortsLoop rest (insert (natPort binding) exposed)"

definition toExposedPorts :: "PortBinding list \<Rightarrow> string set" where
  "toExposedPorts ports = toExposedPortsLoop ports {}"

text \<open>
  \<open>toDockerPortBindings\<close> walks the map of selected ports; \<open>ports\<close> is the list of
  its entries in the order of the walk. The parameter \<open>address\<close> is not read by the
  body, and \<open>HostIP\<close> is not set in the literal (the line that would set it is a
  comment), so it is the empty string.
\<close>

fun toDockerPortBindingsLoop ::
  "(PortBinding \<times> int) list \<Rightarrow> (string \<times> NatPortBinding list) list
     \<Rightarrow> (string \<times> NatPortBinding list) list" where
  "toDockerPortBindingsLoop [] toReturn = toReturn"
| "toDockerPortBindingsLoop ((binding, selectedPort) # rest) toReturn =
     toDockerPortBindingsLoop rest
       (AList.update (natPort binding)
          [\<lparr>HostIP = [], HostPort = Itoa selectedPort\<rparr>] toReturn)"

definition toDockerPortBindings ::
  "IP \<Rightarrow> (PortBinding \<times> int) list \<Rightarrow> (string \<times> NatPortBinding list) list" where
  "toDockerPortBindings address ports = toDockerPortBindingsLoop ports []"

section \<open>Selecting the external ports\<close>

text \<open>
  \<open>selectPorts\<close>: \<open>used\<close> starts empty and no statement of the loop appends to it,
  so the loop hands it on as it is; \<open>n\<close> counts the calls of the selector.
\<close>

fun selectPortsLoop ::
  "env \<Rightarrow> IP \<Rightarrow> int list \<Rightarrow> nat \<Rightarrow> PortBinding list \<Rightarrow> (PortBinding \<times> int) list
     \<Rightarrow> (error + (PortBinding \<times> int) list) \<times> event list" where
  "selectPortsLoop e address used n [] toReturn = (Inr toReturn, [])"
| "selectPortsLoop e address used n (binding # rest) toReturn =
     (case parseIntervalInteger e (ExternalInterval binding) of
        Inl err \<Rightarrow> (Inl (Wrap err (''Parsing '' @ ExternalInterval binding)), [])
      | Inr itv \<Rightarrow>
          (case selectPortsLoop e address used (Suc n) rest
                  (AList.update binding (selectPortExcluding e n address itv used) toReturn) of
             (r, evs) \<Rightarrow> (r, EvSelectPortExcluding address itv used # evs)))"

definition selectPorts ::
  "env \<Rightarrow> IP \<Rightarrow> PortBinding list \<Rightarrow> (error + (PortBinding \<times> int) list) \<times> event list" where
  "selectPorts e address possiblePorts = selectPortsLoop e address [] 0 possiblePorts []"

section \<open>Making sure the image is there\<close>

fun tagListed :: "string \<Rightarrow> string list \<Rightarrow> bool" where
  "tagListed img [] = False"
| "tagListed img (tag # tags) = (if tag = img then True else tagListed img tags)"

fun imageListed :: "string \<Rightarrow> string list list \<Rightarrow> bool" where
  "imageListed img [] = False"
| "imageListed img (repoTags # images) =
     (if tagListed img repoTags then True else imageListed img images)"

text \<open>The loop over \<open>stream.Decode\<close>: it ends at \<open>io.EOF\<close> or at the first error.\<close>

fun decodeLoop :: "string \<Rightarrow> error option list \<Rightarrow> error option" where
  "decodeLoop img [] = None"
| "decodeLoop img (None # rest) = decodeLoop img rest"
| "decodeLoop img (Some err # rest) =
     Some (Wrap err (''Pulling '' @ img @ '' (Error decoding json stream)''))"

definition pullImage :: "env \<Rightarrow> Options \<Rightarrow> error option \<times> event list" where
  "pullImage e options =
     (case imageList e of
        Inl err \<Rightarrow> (Some (Wrap err ''Listing images''), [EvImageList])
      | Inr images \<Rightarrow>
          if imageListed (Image options) images then (None, [EvImageList])
          else
            (case imagePull e of
               Inl err \<Rightarrow>
                 (Some (Wrap err (''Pulling image: '' @ Image options)),
                  [EvImageList, EvImagePull (Image options)])
             | Inr stream \<Rightarrow>
                 (decodeLoop (Image options) stream,
                  [EvImageList, EvImagePull (Image options)])))"

section \<open>Waiting for the container\<close>

text \<open>
  Both loops read the clock, call out, and sleep. A function takes the reading of the
  clock at its start and gives back its error (\<open>None\<close> is \<open>nil\<close>), the reading at its
  end and the calls it made. \<open>done\<close> is \<open>time.Now().Add(maxWait)\<close>, and
  \<open>time.Now().Before(done)\<close> is \<open>now < done\<close>.

  In \<open>waitStarted\<close> an error of the inspection leaves the loop by \<open>break\<close>, which
  reaches the \<open>return\<close> after the loop.
\<close>

function waitStartedLoop ::
  "env \<Rightarrow> string \<Rightarrow> nat \<Rightarrow> nat \<Rightarrow> nat \<Rightarrow> error option \<times> nat \<times> event list" where
  "waitStartedLoop e containerID maxWait done now =
     (if now < done then
        (case containerInspect e now containerID of
           Inl err \<Rightarrow>
             (Some (ContainerNotStarted containerID maxWait), now + latency e now,
              [EvContainerInspect containerID])
         | Inr running \<Rightarrow>
             if running then (None, now + latency e now, [EvContainerInspect containerID])
             else
               (case waitStartedLoop e containerID maxWait done
                       (now + latency e now + stepWaitTime + oversleep e (now + latency e now)) of
                  (r, t, evs) \<Rightarrow>
                    (r, t, EvContainerInspect containerID # EvSleep stepWaitTime # evs)))
      else (Some (ContainerNotStarted containerID maxWait), now, []))"
  by pat_completeness auto
termination
  by (relation "measure (\<lambda>(e, containerID, maxWait, done, now). done - now)")
     (auto simp: stepWaitTime_def Millisecond_def)

definition waitStarted ::
  "env \<Rightarrow> string \<Rightarrow> nat \<Rightarrow> nat \<Rightarrow> error option \<times> nat \<times> event list" where
  "waitStarted e containerID maxWait now =
     waitStartedLoop e containerID maxWait (now + maxWait) now"

text \<open>
  In \<open>waitReachable\<close> a dial that succeeds ends the function with the result of
  \<open>c.Close()\<close>, whatever it is.
\<close>

function waitReachableLoop ::
  "env \<Rightarrow> string \<Rightarrow> nat \<Rightarrow> nat \<Rightarrow> nat \<Rightarrow> error option \<times> nat \<times> event list" where
  "waitReachableLoop e hostport maxWait done now =
     (if now < done then
        (case dial e now ''tcp'' hostport of
           None \<Rightarrow>
             (connClose e (now + latency e now), now + latency e now,
              [EvDial ''tcp'' hostport, EvClose])
         | Some err \<Rightarrow>
             (case waitReachableLoop e hostport maxWait done
                     (now + latency e now + stepWaitTime + oversleep e (now + latency e now)) of
                (r, t, evs) \<Rightarrow> (r, t, EvDial ''tcp'' hostport # EvSleep stepWaitTime # evs)))
      else (Some (CouldNotReach hostport maxWait), now, []))"
  by pat_completeness auto
termination
  by (relation "measure (\<lambda>(e, hostport, maxWait, done, now). done - now)")
     (auto simp: stepWaitTime_def Millisecond_def)

definition waitReachable ::
  "env \<Rightarrow> string \<Rightarrow> nat \<Rightarrow> nat \<Rightarrow> error option \<times> nat \<times> event list" where
  "waitReachable e hostport maxWait now =
     waitReachableLoop e hostport maxWait (now + maxWait) now"

definition waitContainer ::
  "env \<Rightarrow> string \<Rightarrow> string \<Rightarrow> nat \<Rightarrow> nat \<Rightarrow> error option \<times> nat \<times> event list" where
  "waitContainer e containerID hostport maxWait now =
     (case waitStarted e containerID maxWait now of
        (Some err, t, evs) \<Rightarrow> (Some err, t, evs)
      | (None, t, evs) \<Rightarrow>
          (case waitReachable e hostport maxWait t of
             (Some err, t', evs') \<Rightarrow> (Some err, t', evs @ evs')
           | (None, t', evs') \<Rightarrow> (None, t', evs @ evs')))"

section \<open>Creating the container\<close>

text \<open>
  The function that \<open>New\<close> returns is the pair of the two variables it captures; calling
  it is \<open>callTeardown\<close>.
\<close>

record Teardown =
  tdContainerName :: string
  tdContainerID :: string

definition callTeardown :: "env \<Rightarrow> Teardown \<Rightarrow> error option \<times> event list" where
  "callTeardown e td =
     (case containerRemove e of
        Some err \<Rightarrow>
          (Some (Wrap err (''MongoDB: Could not remove '' @ tdContainerName td)),
           [EvContainerRemove (tdContainerID td) True])
      | None \<Rightarrow> (None, [EvContainerRemove (tdContainerID td) True]))"

text \<open>
  What a call of \<open>New\<close> comes to: the three returned values, or a run-time panic
  (\<open>options.Ports[0]\<close> on an empty slice).
\<close>

datatype 'a outcome = Return 'a | Panic string

type_synonym newResult = "ContainerInfo option \<times> Teardown option \<times> error option"

definition failed :: "error \<Rightarrow> event list \<Rightarrow> newResult outcome \<times> event list" where
  "failed err evs = (Return (None, None, Some err), evs)"

text \<open>
  \<open>New\<close>; \<open>now\<close> is the reading of the clock when the waiting starts, the only place
  where the clock is read.
\<close>

definition New :: "env \<Rightarrow> Options \<Rightarrow> nat \<Rightarrow> newResult outcome \<times> event list" where
  "New e options now =
     (case newEnvClient e of
        Some err \<Rightarrow>
          failed (Wrap err ''MongoDB: Could not create docker client'') [EvNewEnvClient]
      | None \<Rightarrow>
     (case pullImage e options of
        (Some err, evs1) \<Rightarrow>
          failed (Wrap err (''Downloading image: '' @ Image options)) (EvNewEnvClient # evs1)
      | (None, evs1) \<Rightarrow>
     (let ip = ParseIP dockerAddress in
     (case checkOptions options of
        Some err \<Rightarrow>
          failed (ErrorsNew ''Docker instance cannot be used without a external port'')
            (EvNewEnvClient # evs1)
      | None \<Rightarrow>
     (case newRandom e of
        Inl err \<Rightarrow>
          failed (Wrap err (''generating docker suffix for '' @ Name options))
            (EvNewEnvClient # evs1)
      | Inr suffix \<Rightarrow>
     (let containerName = Name options @ ''-'' @ suffix in
     (case selectPorts e ip (Ports options) of
        (Inl err, evs2) \<Rightarrow>
          failed (Wrap err ''Selecting ports'') (EvNewEnvClient # evs1 @ evs2)
      | (Inr dockerPorts, evs2) \<Rightarrow>
     (let portBindings = toDockerPortBindings ip (portsOrder e dockerPorts);
          varDefinitions =
            map (\<lambda>(key, val). key @ ''='' @ val) (varsOrder e (EnvironmentVariables options));
          evs3 = EvNewEnvClient # evs1 @ evs2 @
            [EvContainerCreate
               \<lparr>ConfigImage = Image options, ExposedPorts = toExposedPorts (Ports options),
                Env = varDefinitions\<rparr>
               \<lparr>PortBindings = portBindings\<rparr> containerName] in
     (case containerCreate e of
        Inl err \<Rightarrow>
          failed (Wrap err (''Could not create container ('' @ containerName @ '')'')) evs3
      | Inr containerInfo \<Rightarrow>
     (let containerID = ID containerInfo;
          evs4 = evs3 @ [EvContainerStart containerID] in
     (case containerStart e of
        Some err \<Rightarrow>
          failed (Wrap err (''Could not start container ('' @ containerName @ '')'')) evs4
      | None \<Rightarrow>
     (case Ports options of
        [] \<Rightarrow> (Panic ''index out of range'', evs4)
      | first # others \<Rightarrow>
     (let reachablePorts = (case map_of dockerPorts first of Some p \<Rightarrow> p | None \<Rightarrow> 0) in
     (case waitContainer e containerID (dockerAddress @ '':'' @ Itoa reachablePorts)
             maxWaitTime now of
        (Some err, t, evs5) \<Rightarrow>
          failed (Wrap err ''Container not started withing time limit'') (evs4 @ evs5)
      | (None, t, evs5) \<Rightarrow>
          (Return
             (Some \<lparr>Identifier = containerID, Address = ip, InfoPorts = dockerPorts\<rparr>,
              Some \<lparr>tdContainerName = containerName, tdContainerID = containerID\<rparr>,
              None),
           evs4 @ evs5)))))))))))))))"

section \<open>Reading the record of calls\<close>

fun isDial :: "event \<Rightarrow> bool" where
  "isDial (EvDial network hostport) = True"
| "isDial ev = False"






text \<open>
  The calls of \<open>New\<close> up to the start of the container, and what is left of \<open>New\<close>
  from there (the last \<open>case\<close> of its definition).
\<close>

definition createEvent ::
  "env \<Rightarrow> Options \<Rightarrow> (PortBinding \<times> int) list \<Rightarrow> string \<Rightarrow> event" where
  "createEvent e options dockerPorts containerName =
     EvContainerCreate
        \<lparr>ConfigImage = Image options, ExposedPorts = toExposedPorts (Ports options),
         Env = map (\<lambda>(key, val). key @ ''='' @ val)
                 (varsOrder e (EnvironmentVariables options))\<rparr>
        \<lparr>PortBindings =
           toDockerPortBindings (ParseIP dockerAddress) (portsOrder e dockerPorts)\<rparr>
        containerName"

definition launchEvents ::
  "env \<Rightarrow> Options \<Rightarrow> (PortBinding \<times> int) list \<Rightarrow> string \<Rightarrow> string \<Rightarrow> event list" where
  "launchEvents e options dockerPorts containerName containerID =
     EvNewEnvClient # snd (pullImage e options) @
     snd (selectPorts e (ParseIP dockerAddress) (Ports options)) @
     [createEvent e options dockerPorts containerName, EvContainerStart containerID]"

definition awaitContainer ::
  "env \<Rightarrow> Options \<Rightarrow> nat \<Rightarrow> (PortBinding \<times> int) list \<Rightarrow> int \<Rightarrow> string
     \<Rightarrow> ContainerCreateCreatedBody \<Rightarrow> newResult outcome \<times> event list" where
  "awaitContainer e options now dockerPorts p suffix created =
     (case waitContainer e (ID created) (dockerAddress @ '':'' @ Itoa p) maxWaitTime now of
        (Some err, t, evs5) \<Rightarrow>
          failed (Wrap err ''Container not started withing time limit'')
            (launchEvents e options dockerPorts (Name options @ ''-'' @ suffix) (ID created)
               @ evs5)
      | (None, t, evs5) \<Rightarrow>
          (Return
             (Some \<lparr>Identifier = ID created, Address = ParseIP dockerAddress,
                    InfoPorts = dockerPorts\<rparr>,
              Some \<lparr>tdContainerName = Name options @ ''-'' @ suffix,
                    tdContainerID = ID created\<rparr>,
              None),
           launchEvents e options dockerPorts (Name options @ ''-'' @ suffix) (ID created)
             @ evs5))"

section \<open>An environment to run the functions in\<close>

text \<open>
  Modelled from the spec: the selector \<open>connectionutils.SelectPortExcluding\<close>, which is
  not part of the sources. The spec has it pick a port of the range that is neither
  excluded nor bound on the host; first fit is one such choice. The source reads the field
  \<open>Port\<close> of whatever comes back, which is taken to be 0 when no port fits.
\<close>

definition firstFree :: "(int \<Rightarrow> bool) \<Rightarrow> interval \<Rightarrow> int list \<Rightarrow> int" where
  "firstFree bound itv excluded =
     (case filter (\<lambda>p. p \<notin> set excluded \<and> \<not> bound p) [imin itv..imax itv] of
        [] \<Rightarrow> 0
      | p # ps \<Rightarrow> p)"

text \<open>
  A host where the image is present, no port is bound, the container runs at once and the
  service answers the first dial.
\<close>

definition exampleEnv :: env where
  "exampleEnv =
     \<lparr>newEnvClient = None,
      imageList = Inr [[''busybox:latest'']],
      imagePull = Inr [],
      newRandom = Inr ''6ba7b810'',
      parseIntervalInteger =
        (\<lambda>text. if text = ''40000-40010'' then Inr \<lparr>imin = 40000, imax = 40010\<rparr>
                else if text = ''40020-40030'' then Inr \<lparr>imin = 40020, imax = 40030\<rparr>
                else Inl (External ''not an interval'')),
      selectPortExcluding = (\<lambda>n address itv used. firstFree (\<lambda>p. False) itv used),
      portsOrder = (\<lambda>entries. entries),
      varsOrder = (\<lambda>entries. entries),
      containerCreate = Inr \<lparr>ID = ''c1'', Warnings = []\<rparr>,
      containerStart = None,
      containerInspect = (\<lambda>t containerID. Inr True),
      containerRemove = None,
      dial = (\<lambda>t network hostport. None),
      connClose = (\<lambda>t. None),
      latency = (\<lambda>t. 0),
      oversleep = (\<lambda>t. 0)\<rparr>"

text \<open>
  Three port bindings and the request of the example scenario: \<open>exampleAdmin\<close> has a
  range of its own, \<open>exampleMetrics\<close> shares the range of \<open>exampleWeb\<close>.
\<close>

definition exampleWeb :: PortBinding where
  "exampleWeb = \<lparr>Protocol = ''tcp'', Internal = 80, ExternalInterval = ''40000-40010''\<rparr>"


definition exampleMetrics :: PortBinding where
  "exampleMetrics = \<lparr>Protocol = ''tcp'', Internal = 9090, ExternalInterval = ''40000-40010''\<rparr>"

definition exampleOptions :: Options where
  "exampleOptions =
     \<lparr>Name = ''svc'', Image = ''busybox:latest'', Ports = [exampleWeb],
      EnvironmentVariables = []\<rparr>"



text \<open>
  The equations of the two loops and of \<open>digits\<close> rewrite a call into itself; they
  are used one step at a time.
\<close>

declare waitStartedLoop.simps [simp del]
declare waitReachableLoop.simps [simp del]
declare digits.simps [simp del]

section \<open>The waiting loops\<close>


lemma waitStartedLoop_no_dial:
  "filter isDial (snd (snd (waitStartedLoop e containerID maxWait done now))) = []"
proof (induction e containerID maxWait "done" now rule: waitStartedLoop.induct)
  case (1 e containerID maxWait "done" now)
  note unfold = waitStartedLoop.simps [of e containerID maxWait "done" now]
  show ?case
  proof (cases "now < done")
    case False
    then show ?thesis by (simp add: unfold)
  next
    case True
    show ?thesis
    proof (cases "containerInspect e now containerID")
      case (Inl err)
      with True show ?thesis by (simp add: unfold)
    next
      case (Inr running)
      show ?thesis
      proof (cases running)
        case True
        with Inr \<open>now < done\<close> show ?thesis by (simp add: unfold)
      next
        case False
        with 1 [OF \<open>now < done\<close> Inr] Inr \<open>now < done\<close> show ?thesis
          by (auto simp: unfold split: prod.splits)
      qed
    qed
  qed
qed

lemma waitStartedLoop_never_running:
  "(\<And>t. now \<le> t \<Longrightarrow> t < done \<Longrightarrow> containerInspect e t containerID \<noteq> Inr True) \<Longrightarrow>
   fst (waitStartedLoop e containerID maxWait done now) =
     Some (ContainerNotStarted containerID maxWait)"
proof (induction e containerID maxWait "done" now rule: waitStartedLoop.induct)
  case (1 e containerID maxWait "done" now)
  note unfold = waitStartedLoop.simps [of e containerID maxWait "done" now]
  show ?case
  proof (cases "now < done")
    case False
    then show ?thesis by (simp add: unfold)
  next
    case True
    show ?thesis
    proof (cases "containerInspect e now containerID")
      case (Inl err)
      with True show ?thesis by (simp add: unfold)
    next
      case (Inr running)
      from "1.prems" [of now] True Inr have nr: "\<not> running" by auto
      have "fst (waitStartedLoop e containerID maxWait done
                  (now + latency e now + stepWaitTime + oversleep e (now + latency e now))) =
            Some (ContainerNotStarted containerID maxWait)"
        using "1.IH" [OF True Inr nr] "1.prems" by simp
      with True Inr nr show ?thesis
        by (auto simp: unfold split: prod.splits)
    qed
  qed
qed











lemma waitContainer_cases:
  "(fst (waitStarted e containerID maxWait now) \<noteq> None \<and>
      waitContainer e containerID hostport maxWait now = waitStarted e containerID maxWait now) \<or>
   (fst (waitStarted e containerID maxWait now) = None \<and>
      fst (waitContainer e containerID hostport maxWait now) =
        fst (waitReachable e hostport maxWait (fst (snd (waitStarted e containerID maxWait now)))) \<and>
      snd (snd (waitContainer e containerID hostport maxWait now)) =
        snd (snd (waitStarted e containerID maxWait now)) @
        snd (snd (waitReachable e hostport maxWait
                    (fst (snd (waitStarted e containerID maxWait now))))))"
  by (auto simp: waitContainer_def split: prod.splits option.splits)

section \<open>Claims about the readiness gate\<close>

text \<open>
  C2, as the claim has it: while the gate waits for the process, an error of the
  inspection is passed over and the loop goes on asking until the budget is used up.
  The source leaves the loop at the first such error. Below, the engine fails the first
  inspection and would report a running process one step later, with the whole budget
  left: \<open>waitStarted\<close> has returned its error after the one inspection, without a
  pause.
\<close>

theorem waitStarted_retry_counterexample:
  "0 < maxWaitTime \<and>
   containerInspect
     (exampleEnv\<lparr>containerInspect :=
        (\<lambda>t containerID. if t = 0 then Inl (External ''engine unreachable'') else Inr True)\<rparr>)
     stepWaitTime ''c1'' = Inr True \<and>
   waitStarted
     (exampleEnv\<lparr>containerInspect :=
        (\<lambda>t containerID. if t = 0 then Inl (External ''engine unreachable'') else Inr True)\<rparr>)
     ''c1'' maxWaitTime 0 =
   (Some (ContainerNotStarted ''c1'' maxWaitTime), 0, [EvContainerInspect ''c1''])"
  by (simp add: waitStarted_def waitStartedLoop.simps exampleEnv_def maxWaitTime_def Second_def
      stepWaitTime_def Millisecond_def)

text \<open>
  C2, amended: in any turn of the loop of \<open>waitStarted\<close> that is entered before
  the deadline, an inspection that returns an error ends the loop at once, whatever is
  left of the budget: no pause, no further inspection, and the result is the error
  "Container not started" with the identifier and the budget. (The loop pauses and asks
  again only after an inspection that succeeds and reports a process that is not
  running, see \<open>waitStartedLoop_retry\<close>.)
\<close>

theorem waitStarted_inspection_error:
  assumes "now < done" and "containerInspect e now containerID = Inl err"
  shows "waitStartedLoop e containerID maxWait done now =
     (Some (ContainerNotStarted containerID maxWait), now + latency e now,
      [EvContainerInspect containerID])"
  using assms by (simp add: waitStartedLoop.simps [of e containerID maxWait "done" now])

theorem waitStarted_inspection_error_witness:
  "(0::nat) < 5000000000 \<and>
   containerInspect
     (exampleEnv\<lparr>containerInspect := (\<lambda>t containerID. Inl (External ''no such container''))\<rparr>)
     0 ''c1'' = Inl (External ''no such container'') \<and>
   waitStartedLoop
     (exampleEnv\<lparr>containerInspect := (\<lambda>t containerID. Inl (External ''no such container''))\<rparr>)
     ''c1'' 5000000000 5000000000 0 =
   (Some (ContainerNotStarted ''c1'' 5000000000), 0, [EvContainerInspect ''c1''])"
  using waitStarted_inspection_error
    [of 0 5000000000
        "exampleEnv\<lparr>containerInspect := (\<lambda>t containerID. Inl (External ''no such container''))\<rparr>"
        "''c1''" "External ''no such container''" 5000000000]
  by (simp add: exampleEnv_def)

lemma waitStartedLoop_retry:
  assumes "now < done" and "containerInspect e now containerID = Inr False"
  shows "waitStartedLoop e containerID maxWait done now =
     (case waitStartedLoop e containerID maxWait done
             (now + latency e now + stepWaitTime + oversleep e (now + latency e now)) of
        (r, t, evs) \<Rightarrow> (r, t, EvContainerInspect containerID # EvSleep stepWaitTime # evs))"
  using assms by (simp add: waitStartedLoop.simps [of e containerID maxWait "done" now])

text \<open>
  C5: if no inspection made within the budget of the first phase reports a running
  process, \<open>waitContainer\<close> returns the error "Container not started" and has not
  dialled.
\<close>

theorem waitContainer_not_started:
  assumes "\<forall>t. now \<le> t \<and> t < now + maxWait \<longrightarrow> containerInspect e t containerID \<noteq> Inr True"
  shows "fst (waitContainer e containerID hostport maxWait now) =
           Some (ContainerNotStarted containerID maxWait) \<and>
         filter isDial (snd (snd (waitContainer e containerID hostport maxWait now))) = []"
proof -
  from assms have started: "fst (waitStarted e containerID maxWait now) =
      Some (ContainerNotStarted containerID maxWait)"
    unfolding waitStarted_def by (intro waitStartedLoop_never_running) auto
  with waitContainer_cases [of e containerID maxWait now hostport]
  have "waitContainer e containerID hostport maxWait now = waitStarted e containerID maxWait now"
    by auto
  with started show ?thesis
    by (simp add: waitStarted_def waitStartedLoop_no_dial)
qed

theorem waitContainer_not_started_witness:
  "fst (waitContainer
          (exampleEnv\<lparr>containerInspect := (\<lambda>t containerID. Inr False),
                      oversleep := (\<lambda>t. maxWaitTime)\<rparr>)
          ''c1'' ''127.0.0.1:40000'' maxWaitTime 0) =
     Some (ContainerNotStarted ''c1'' maxWaitTime) \<and>
   filter isDial (snd (snd (waitContainer
          (exampleEnv\<lparr>containerInspect := (\<lambda>t containerID. Inr False),
                      oversleep := (\<lambda>t. maxWaitTime)\<rparr>)
          ''c1'' ''127.0.0.1:40000'' maxWaitTime 0))) = []"
  using waitContainer_not_started
    [of 0 maxWaitTime
        "exampleEnv\<lparr>containerInspect := (\<lambda>t containerID. Inr False),
                    oversleep := (\<lambda>t. maxWaitTime)\<rparr>"
        "''c1''" "''127.0.0.1:40000''"]
  by (simp add: exampleEnv_def)




section \<open>Selecting ports: what the loop does\<close>

lemma selectPortsLoop_Cons:
  "parseIntervalInteger e (ExternalInterval binding) = Inr itv \<Longrightarrow>
   selectPortsLoop e address used n (binding # rest) toReturn =
     (fst (selectPortsLoop e address used (Suc n) rest
             (AList.update binding (selectPortExcluding e n address itv used) toReturn)),
      EvSelectPortExcluding address itv used #
      snd (selectPortsLoop e address used (Suc n) rest
             (AList.update binding (selectPortExcluding e n address itv used) toReturn)))"
  by (simp split: prod.splits)

lemma selectPortsLoop_success_parse:
  "fst (selectPortsLoop e address used n (binding # rest) toReturn) = Inr m \<Longrightarrow>
   \<exists>itv. parseIntervalInteger e (ExternalInterval binding) = Inr itv"
  by (cases "parseIntervalInteger e (ExternalInterval binding)") (auto split: prod.splits)

lemma selectPortsLoop_parsed:
  "fst (selectPortsLoop e address used n ps acc) = Inr m \<Longrightarrow> b \<in> set ps \<Longrightarrow>
   \<exists>itv. parseIntervalInteger e (ExternalInterval b) = Inr itv"
proof (induction ps arbitrary: n acc)
  case Nil
  then show ?case by simp
next
  case (Cons binding rest)
  from selectPortsLoop_success_parse [OF Cons.prems(1)] obtain itv
    where itv: "parseIntervalInteger e (ExternalInterval binding) = Inr itv" by blast
  from Cons.prems(1) have "fst (selectPortsLoop e address used (Suc n) rest
      (AList.update binding (selectPortExcluding e n address itv used) acc)) = Inr m"
    by (simp only: selectPortsLoop_Cons [OF itv]) simp
  from Cons.IH [OF this] Cons.prems(2) itv show ?case by auto
qed

lemma selectPortsLoop_length:
  "fst (selectPortsLoop e address used n ps acc) = Inr m \<Longrightarrow>
   length (snd (selectPortsLoop e address used n ps acc)) = length ps"
proof (induction ps arbitrary: n acc)
  case Nil
  then show ?case by simp
next
  case (Cons binding rest)
  from selectPortsLoop_success_parse [OF Cons.prems] obtain itv
    where itv: "parseIntervalInteger e (ExternalInterval binding) = Inr itv" by blast
  from Cons.prems Cons.IH show ?case
    by (simp only: selectPortsLoop_Cons [OF itv]) simp
qed

lemma selectPortsLoop_keys:
  "fst (selectPortsLoop e address used n ps acc) = Inr m \<Longrightarrow>
   fst ` set m = fst ` set acc \<union> set ps"
proof (induction ps arbitrary: n acc)
  case Nil
  then show ?case by simp
next
  case (Cons binding rest)
  from selectPortsLoop_success_parse [OF Cons.prems] obtain itv
    where itv: "parseIntervalInteger e (ExternalInterval binding) = Inr itv" by blast
  from Cons.prems have "fst (selectPortsLoop e address used (Suc n) rest
      (AList.update binding (selectPortExcluding e n address itv used) acc)) = Inr m"
    by (simp only: selectPortsLoop_Cons [OF itv]) simp
  from Cons.IH [OF this] show ?case
    by (auto simp: AList.dom_update)
qed

lemma selectPortsLoop_distinct:
  "fst (selectPortsLoop e address used n ps acc) = Inr m \<Longrightarrow>
   distinct (map fst acc) \<Longrightarrow> distinct (map fst m)"
proof (induction ps arbitrary: n acc)
  case Nil
  then show ?case by simp
next
  case (Cons binding rest)
  from selectPortsLoop_success_parse [OF Cons.prems(1)] obtain itv
    where itv: "parseIntervalInteger e (ExternalInterval binding) = Inr itv" by blast
  from Cons.prems(1) have "fst (selectPortsLoop e address used (Suc n) rest
      (AList.update binding (selectPortExcluding e n address itv used) acc)) = Inr m"
    by (simp only: selectPortsLoop_Cons [OF itv]) simp
  from Cons.IH [OF this] Cons.prems(2) show ?case
    by (simp add: AList.distinct_update)
qed

lemma selectPortsLoop_untouched:
  "fst (selectPortsLoop e address used n ps acc) = Inr m \<Longrightarrow> b \<notin> set ps \<Longrightarrow>
   map_of m b = map_of acc b"
proof (induction ps arbitrary: n acc)
  case Nil
  then show ?case by simp
next
  case (Cons binding rest)
  from selectPortsLoop_success_parse [OF Cons.prems(1)] obtain itv
    where itv: "parseIntervalInteger e (ExternalInterval binding) = Inr itv" by blast
  from Cons.prems(1) have "fst (selectPortsLoop e address used (Suc n) rest
      (AList.update binding (selectPortExcluding e n address itv used) acc)) = Inr m"
    by (simp only: selectPortsLoop_Cons [OF itv]) simp
  from Cons.IH [OF this] Cons.prems(2) show ?case
    by (simp add: AList.update_conv')
qed

lemma selectPortsLoop_last:
  "fst (selectPortsLoop e address used n ps acc) = Inr m \<Longrightarrow> j < length ps \<Longrightarrow>
   (\<And>k. j < k \<Longrightarrow> k < length ps \<Longrightarrow> ps ! k \<noteq> ps ! j) \<Longrightarrow>
   \<exists>itv. parseIntervalInteger e (ExternalInterval (ps ! j)) = Inr itv \<and>
     map_of m (ps ! j) = Some (selectPortExcluding e (n + j) address itv used)"
proof (induction ps arbitrary: n acc j)
  case Nil
  then show ?case by simp
next
  case (Cons binding rest)
  from selectPortsLoop_success_parse [OF Cons.prems(1)] obtain itv
    where itv: "parseIntervalInteger e (ExternalInterval binding) = Inr itv" by blast
  from Cons.prems(1) have rest: "fst (selectPortsLoop e address used (Suc n) rest
      (AList.update binding (selectPortExcluding e n address itv used) acc)) = Inr m"
    by (simp only: selectPortsLoop_Cons [OF itv]) simp
  show ?case
  proof (cases j)
    case 0
    have "binding \<notin> set rest"
    proof
      assume "binding \<in> set rest"
      then obtain k where "k < length rest" and "rest ! k = binding"
        by (auto simp: in_set_conv_nth)
      with Cons.prems(3) [of "Suc k"] 0 show False by simp
    qed
    from selectPortsLoop_untouched [OF rest this] itv 0 show ?thesis
      by (simp add: AList.update_conv')
  next
    case (Suc j')
    have "\<exists>itv. parseIntervalInteger e (ExternalInterval (rest ! j')) = Inr itv \<and>
       map_of m (rest ! j') = Some (selectPortExcluding e (Suc n + j') address itv used)"
    proof (rule Cons.IH [OF rest])
      from Cons.prems(2) Suc show "j' < length rest" by simp
    next
      fix k assume "j' < k" and "k < length rest"
      with Cons.prems(3) [of "Suc k"] Suc show "rest ! k \<noteq> rest ! j'" by simp
    qed
    with Suc show ?thesis by simp
  qed
qed

lemma selectPortsLoop_events:
  "list_all (\<lambda>ev. \<exists>itv. ev = EvSelectPortExcluding address itv used)
     (snd (selectPortsLoop e address used n ps acc))"
proof (induction ps arbitrary: n acc)
  case Nil
  then show ?case by simp
next
  case (Cons binding rest)
  show ?case
  proof (cases "parseIntervalInteger e (ExternalInterval binding)")
    case (Inl err)
    then show ?thesis by simp
  next
    case (Inr itv)
    with Cons.IH show ?thesis
      by (simp only: selectPortsLoop_Cons [OF Inr]) simp
  qed
qed

lemma selectPorts_used_empty:
  "list_all (\<lambda>ev. \<exists>itv. ev = EvSelectPortExcluding address itv [])
     (snd (selectPorts e address possiblePorts))"
  unfolding selectPorts_def by (rule selectPortsLoop_events)

lemma distinct_key_single:
  "k \<in> fst ` set al \<Longrightarrow> distinct (map fst al) \<Longrightarrow>
   length (filter (\<lambda>entry. fst entry = k) al) = 1"
proof (induction al)
  case Nil
  then show ?case by simp
next
  case (Cons entry entries)
  show ?case
  proof (cases "fst entry = k")
    case True
    with Cons.prems(2) have "k \<notin> fst ` set entries" by simp
    then have "filter (\<lambda>entry. fst entry = k) entries = []"
      by (force simp: filter_empty_conv)
    with True show ?thesis by simp
  next
    case False
    with Cons show ?thesis by auto
  qed
qed

lemma Itoa_40000: "Itoa 40000 = ''40000''"
  by (simp add: Itoa_def digits.simps digit_def)

lemma natPort_exampleWeb: "natPort exampleWeb = ''80/tcp''"
  by (simp add: natPort_def exampleWeb_def Itoa_def digits.simps digit_def)

lemma firstFree_ex1: "firstFree (\<lambda>p. False) \<lparr>imin = 40000, imax = 40010\<rparr> [] = 40000"
  by (simp add: firstFree_def upto.simps)


text \<open>
  With ranges that do not meet and a selector that answers with a port of the range it
  is given, every binding gets an entry of its own, each port lies in the range of its
  binding, and no port is assigned twice. The ranges do the work: the list of excluded
  ports plays no part in it.
\<close>

lemma selectPorts_disjoint_ranges:
  assumes ok: "selectPorts e address ps = (Inr m, evs)"
    and contract: "\<And>j itv. j < length ps \<Longrightarrow>
        parseIntervalInteger e (ExternalInterval (ps ! j)) = Inr itv \<Longrightarrow>
        inInterval itv (selectPortExcluding e j address itv [])"
    and disjoint: "\<And>i j itv itv' q. i < j \<Longrightarrow> j < length ps \<Longrightarrow>
        parseIntervalInteger e (ExternalInterval (ps ! i)) = Inr itv \<Longrightarrow>
        parseIntervalInteger e (ExternalInterval (ps ! j)) = Inr itv' \<Longrightarrow>
        \<not> (inInterval itv q \<and> inInterval itv' q)"
  shows "length m = length ps"
    and "distinct (map snd m)"
    and "(b, q) \<in> set m \<Longrightarrow>
           \<exists>itv. parseIntervalInteger e (ExternalInterval b) = Inr itv \<and> inInterval itv q"
proof -
  from ok have loop: "fst (selectPortsLoop e address [] 0 ps []) = Inr m"
    by (simp add: selectPorts_def)
  have keys: "fst ` set m = set ps"
    using selectPortsLoop_keys [OF loop] by simp
  have dist: "distinct (map fst m)"
    using selectPortsLoop_distinct [OF loop] by simp
  have parsed: "\<exists>itv. parseIntervalInteger e (ExternalInterval (ps ! j)) = Inr itv"
    if "j < length ps" for j
    using selectPortsLoop_parsed [OF loop, of "ps ! j"] that by simp
  have differ: "ps ! i \<noteq> ps ! j" if "i < j" and "j < length ps" for i j
  proof
    assume same: "ps ! i = ps ! j"
    from parsed [OF that(2)] obtain itv
      where itv: "parseIntervalInteger e (ExternalInterval (ps ! j)) = Inr itv" by blast
    from contract [OF that(2) itv] disjoint [OF that, of itv itv] itv same
    show False by auto
  qed
  have distinct_ps: "distinct ps"
    unfolding distinct_conv_nth
  proof (intro allI impI)
    fix i j assume "i < length ps" and "j < length ps" and "i \<noteq> j"
    then show "ps ! i \<noteq> ps ! j"
      using differ [of i j] differ [of j i] by (cases "i < j") auto
  qed
  have stored: "\<exists>itv. parseIntervalInteger e (ExternalInterval (ps ! j)) = Inr itv \<and>
      inInterval itv (selectPortExcluding e j address itv []) \<and>
      map_of m (ps ! j) = Some (selectPortExcluding e j address itv [])"
    if "j < length ps" for j
  proof -
    have "\<exists>itv. parseIntervalInteger e (ExternalInterval (ps ! j)) = Inr itv \<and>
        map_of m (ps ! j) = Some (selectPortExcluding e (0 + j) address itv [])"
    proof (rule selectPortsLoop_last [OF loop that])
      fix k assume "j < k" and "k < length ps"
      from differ [OF this] show "ps ! k \<noteq> ps ! j" by simp
    qed
    with contract [OF that] show ?thesis by auto
  qed
  have "length m = card (set ps)"
    using dist keys by (metis distinct_card length_map set_map)
  with distinct_ps have "length m = length ps"
    by (simp add: distinct_card)
  then show "length m = length ps" .
  have entry: "\<exists>j itv. j < length ps \<and> ps ! j = b' \<and>
      parseIntervalInteger e (ExternalInterval b') = Inr itv \<and> inInterval itv q'"
    if "(b', q') \<in> set m" for b' q'
  proof -
    from that keys have "b' \<in> set ps" by force
    then obtain j where j: "j < length ps" "ps ! j = b'"
      by (auto simp: in_set_conv_nth)
    from that dist have "map_of m b' = Some q'" by simp
    with stored [OF j(1)] j show ?thesis by auto
  qed
  show "\<exists>itv. parseIntervalInteger e (ExternalInterval b) = Inr itv \<and> inInterval itv q"
    if "(b, q) \<in> set m"
    using entry [OF that] by blast
  have "inj_on snd (set m)"
  proof (rule inj_onI)
    fix x y assume x: "x \<in> set m" and y: "y \<in> set m" and eq: "snd x = snd y"
    obtain b1 q1 where x': "x = (b1, q1)" by (cases x)
    obtain b2 q2 where y': "y = (b2, q2)" by (cases y)
    from entry [of b1 q1] x x' obtain j1 itv1 where
      j1: "j1 < length ps" "ps ! j1 = b1"
        "parseIntervalInteger e (ExternalInterval b1) = Inr itv1" "inInterval itv1 q1"
      by blast
    from entry [of b2 q2] y y' obtain j2 itv2 where
      j2: "j2 < length ps" "ps ! j2 = b2"
        "parseIntervalInteger e (ExternalInterval b2) = Inr itv2" "inInterval itv2 q2"
      by blast
    from eq x' y' have q: "q1 = q2" by simp
    have "j1 = j2"
    proof (rule ccontr)
      assume "j1 \<noteq> j2"
      then consider "j1 < j2" | "j2 < j1" by linarith
      then show False
      proof cases
        case 1
        from disjoint [OF 1 j2(1), of itv1 itv2 q1] j1 j2 q show False by simp
      next
        case 2
        from disjoint [OF 2 j1(1), of itv2 itv1 q1] j1 j2 q show False by simp
      qed
    qed
    with j1 j2 q x' y' show "x = y" by simp
  qed
  moreover from dist have "distinct m"
    by (rule distinct_map [THEN iffD1, THEN conjunct1])
  ultimately show "distinct (map snd m)"
    by (simp add: distinct_map)
qed


text \<open>
  What the omission costs when two bindings share a range: the first-fit selector, which
  would honour an exclusion, gives both the same port.
\<close>

lemma selectPorts_overlap_same_port:
  "selectPorts exampleEnv (ParseIP dockerAddress) [exampleWeb, exampleMetrics] =
     (Inr [(exampleWeb, 40000), (exampleMetrics, 40000)],
      [EvSelectPortExcluding (ParseIP dockerAddress) \<lparr>imin = 40000, imax = 40010\<rparr> [],
       EvSelectPortExcluding (ParseIP dockerAddress) \<lparr>imin = 40000, imax = 40010\<rparr> []])"
  by (simp add: selectPorts_def exampleEnv_def exampleWeb_def exampleMetrics_def
      firstFree_ex1)

text \<open>
  C9: when the list of bindings holds the same binding at two places \<open>i < j\<close> (take
  \<open>j\<close> the last place where it occurs) and \<open>selectPorts\<close> succeeds, the selector
  has been called once for every element of the list, the returned map has fewer entries
  than the list has elements, exactly one of them is under this binding, and its port is
  the one the selector returned at call \<open>j\<close>, the last made for it.
\<close>

theorem selectPorts_duplicates:
  assumes "selectPorts e address possiblePorts = (Inr toReturn, evs)"
    and "i < j" and "j < length possiblePorts" and "possiblePorts ! i = possiblePorts ! j"
    and "\<forall>k. j < k \<and> k < length possiblePorts \<longrightarrow> possiblePorts ! k \<noteq> possiblePorts ! j"
  shows "length evs = length possiblePorts \<and>
         length toReturn < length possiblePorts \<and>
         length (filter (\<lambda>entry. fst entry = possiblePorts ! i) toReturn) = 1 \<and>
         (\<exists>itv. parseIntervalInteger e (ExternalInterval (possiblePorts ! j)) = Inr itv \<and>
            map_of toReturn (possiblePorts ! i) = Some (selectPortExcluding e j address itv []))"
proof -
  from assms(1) have ok: "fst (selectPortsLoop e address [] 0 possiblePorts []) = Inr toReturn"
    and evs: "evs = snd (selectPortsLoop e address [] 0 possiblePorts [])"
    by (simp_all add: selectPorts_def)
  have len: "length evs = length possiblePorts"
    unfolding evs by (rule selectPortsLoop_length [OF ok])
  have keys: "fst ` set toReturn = set possiblePorts"
    using selectPortsLoop_keys [OF ok] by simp
  have dist: "distinct (map fst toReturn)"
    using selectPortsLoop_distinct [OF ok] by simp
  have "\<not> distinct possiblePorts"
  proof
    assume "distinct possiblePorts"
    with assms(2,3,4) have "i = j"
      by (simp add: nth_eq_iff_index_eq)
    with assms(2) show False by simp
  qed
  then have "card (set possiblePorts) < length possiblePorts"
    using card_length [of possiblePorts] distinct_card [of possiblePorts]
    by (metis card_distinct le_neq_implies_less)
  moreover have "length toReturn = card (set possiblePorts)"
    using dist keys by (metis distinct_card length_map set_map)
  ultimately have fewer: "length toReturn < length possiblePorts" by simp
  have "possiblePorts ! i \<in> fst ` set toReturn"
    using keys assms(2,3) by simp
  then have single: "length (filter (\<lambda>entry. fst entry = possiblePorts ! i) toReturn) = 1"
    using dist by (rule distinct_key_single)
  from selectPortsLoop_last [OF ok assms(3)] assms(5)
  have "\<exists>itv. parseIntervalInteger e (ExternalInterval (possiblePorts ! j)) = Inr itv \<and>
     map_of toReturn (possiblePorts ! j) = Some (selectPortExcluding e (0 + j) address itv [])"
    by blast
  with assms(4) have last: "\<exists>itv. parseIntervalInteger e (ExternalInterval (possiblePorts ! j)) = Inr itv \<and>
     map_of toReturn (possiblePorts ! i) = Some (selectPortExcluding e j address itv [])"
    by simp
  from len fewer single last show ?thesis by blast
qed

theorem selectPorts_duplicates_witness:
  "length (snd (selectPorts
       (exampleEnv\<lparr>selectPortExcluding := (\<lambda>n address itv used. imin itv + int n)\<rparr>)
       (ParseIP dockerAddress) [exampleWeb, exampleWeb])) = 2 \<and>
   fst (selectPorts
       (exampleEnv\<lparr>selectPortExcluding := (\<lambda>n address itv used. imin itv + int n)\<rparr>)
       (ParseIP dockerAddress) [exampleWeb, exampleWeb]) = Inr [(exampleWeb, 40001)]"
  using selectPorts_duplicates
    [of "exampleEnv\<lparr>selectPortExcluding := (\<lambda>n address itv used. imin itv + int n)\<rparr>"
        "ParseIP dockerAddress" "[exampleWeb, exampleWeb]" "[(exampleWeb, 40001)]"
        "[EvSelectPortExcluding (ParseIP dockerAddress) \<lparr>imin = 40000, imax = 40010\<rparr> [],
          EvSelectPortExcluding (ParseIP dockerAddress) \<lparr>imin = 40000, imax = 40010\<rparr> []]"
        0 1]
  by (simp add: selectPorts_def exampleEnv_def exampleWeb_def)

section \<open>The declarations given to the engine\<close>

lemma toExposedPortsLoop_set:
  "toExposedPortsLoop ports exposed = exposed \<union> natPort ` set ports"
  by (induction ports arbitrary: exposed) auto

lemma toDockerPortBindingsLoop_keys:
  "fst ` set (toDockerPortBindingsLoop ports acc) = fst ` set acc \<union> natPort ` fst ` set ports"
  by (induction ports acc rule: toDockerPortBindingsLoop.induct) (auto simp: AList.dom_update)

lemma toDockerPortBindingsLoop_map_of:
  "(\<And>entry. entry \<in> set ports \<Longrightarrow> natPort (fst entry) = k \<Longrightarrow> snd entry = q) \<Longrightarrow>
   map_of (toDockerPortBindingsLoop ports acc) k =
     (if k \<in> natPort ` fst ` set ports then Some [\<lparr>HostIP = [], HostPort = Itoa q\<rparr>]
      else map_of acc k)"
proof (induction ports acc rule: toDockerPortBindingsLoop.induct)
  case (1 toReturn)
  then show ?case by simp
next
  case (2 binding selectedPort rest toReturn)
  have "map_of (toDockerPortBindingsLoop rest
          (AList.update (natPort binding) [\<lparr>HostIP = [], HostPort = Itoa selectedPort\<rparr>] toReturn)) k =
     (if k \<in> natPort ` fst ` set rest then Some [\<lparr>HostIP = [], HostPort = Itoa q\<rparr>]
      else map_of (AList.update (natPort binding)
          [\<lparr>HostIP = [], HostPort = Itoa selectedPort\<rparr>] toReturn) k)"
    using "2.prems" by (intro "2.IH") auto
  moreover have "natPort binding = k \<Longrightarrow> selectedPort = q"
    using "2.prems" [of "(binding, selectedPort)"] by simp
  ultimately show ?case
    by (auto simp: AList.update_conv')
qed

text \<open>
  C4, as the claim has it: the binding given to the engine carries the target address
  127.0.0.1. \<open>toDockerPortBindings\<close> does not read its parameter \<open>address\<close> and
  leaves \<open>HostIP\<close> unset: for the binding of port 80 to 40000 the host side is the
  port alone, and its \<open>HostIP\<close> is the empty string, not the address.
\<close>

theorem toDockerPortBindings_counterexample:
  "map_of (toDockerPortBindings (ParseIP dockerAddress) [(exampleWeb, 40000)]) ''80/tcp'' =
     Some [\<lparr>HostIP = [], HostPort = ''40000''\<rparr>] \<and>
   HostIP \<lparr>HostIP = [], HostPort = ''40000''\<rparr> \<noteq> dockerAddress"
  by (simp add: toDockerPortBindings_def natPort_exampleWeb Itoa_40000 dockerAddress_def)

text \<open>
  C4, amended: every internal port and protocol pair of the request is declared as
  exposed; the keys of the bindings are the pairs of the assignment; and a pair of the
  assignment is bound to one host binding, which carries the decimal text of its assigned
  external port (when several entries of the assignment have the same internal port and
  protocol the statement is about those that agree on the port) and an empty \<open>HostIP\<close>:
  the target address is not written into the declaration.
\<close>

theorem toDockerPortBindings_binds:
  assumes "(binding, selectedPort) \<in> set ports"
    and "\<forall>entry \<in> set ports. natPort (fst entry) = natPort binding \<longrightarrow> snd entry = selectedPort"
  shows "toExposedPorts request = natPort ` set request \<and>
         fst ` set (toDockerPortBindings address ports) = natPort ` fst ` set ports \<and>
         map_of (toDockerPortBindings address ports) (natPort binding) =
           Some [\<lparr>HostIP = [], HostPort = Itoa selectedPort\<rparr>]"
proof -
  have exposed: "toExposedPorts request = natPort ` set request"
    by (simp add: toExposedPorts_def toExposedPortsLoop_set)
  have keys: "fst ` set (toDockerPortBindings address ports) = natPort ` fst ` set ports"
    by (simp add: toDockerPortBindings_def toDockerPortBindingsLoop_keys)
  have "natPort binding \<in> natPort ` fst ` set ports"
    using assms(1) by force
  moreover have "entry \<in> set ports \<Longrightarrow> natPort (fst entry) = natPort binding \<Longrightarrow>
      snd entry = selectedPort" for entry
    using assms(2) by blast
  ultimately have "map_of (toDockerPortBindings address ports) (natPort binding) =
      Some [\<lparr>HostIP = [], HostPort = Itoa selectedPort\<rparr>]"
    unfolding toDockerPortBindings_def
    using toDockerPortBindingsLoop_map_of [of ports "natPort binding" selectedPort "[]"]
    by simp
  with exposed keys show ?thesis by blast
qed

theorem toDockerPortBindings_binds_witness:
  "toExposedPorts [exampleWeb] = natPort ` set [exampleWeb] \<and>
   fst ` set (toDockerPortBindings (ParseIP dockerAddress) [(exampleWeb, 40000)]) =
     natPort ` fst ` set [(exampleWeb, 40000)] \<and>
   map_of (toDockerPortBindings (ParseIP dockerAddress) [(exampleWeb, 40000)]) (natPort exampleWeb) =
     Some [\<lparr>HostIP = [], HostPort = Itoa 40000\<rparr>]"
  using toDockerPortBindings_binds
    [of exampleWeb 40000 "[(exampleWeb, 40000)]" "[exampleWeb]" "ParseIP dockerAddress"]
  by simp

section \<open>The whole of New\<close>

lemma pullImage_events:
  "snd (pullImage e options) = [EvImageList] \<or>
   snd (pullImage e options) = [EvImageList, EvImagePull (Image options)]"
  by (simp add: pullImage_def split: sum.splits)

lemma pullImage_no_dial: "filter isDial (snd (pullImage e options)) = []"
  using pullImage_events [of e options] by auto

lemma selectPorts_no_dial: "filter isDial (snd (selectPorts e address ps)) = []"
proof -
  have "list_all (\<lambda>ev. \<exists>itv. ev = EvSelectPortExcluding address itv []) evs \<Longrightarrow>
      filter isDial evs = []" for evs
    by (induction evs) auto
  with selectPorts_used_empty show ?thesis by blast
qed

lemma selectPorts_first_assigned:
  assumes "selectPorts e address (first # others) = (Inr dockerPorts, evs)"
  shows "\<exists>p. map_of dockerPorts first = Some p"
proof -
  from assms have "fst (selectPortsLoop e address [] 0 (first # others) []) = Inr dockerPorts"
    by (simp add: selectPorts_def)
  from selectPortsLoop_keys [OF this] have "first \<in> fst ` set dockerPorts" by simp
  then show ?thesis
    by (metis domIff dom_map_of_conv_image_fst not_Some_eq)
qed


text \<open>
  Every call of \<open>New\<close> either fails before the waiting starts, having dialled
  nothing, or reaches the waiting with a port assigned to the first binding.
\<close>

lemma New_cases [case_names fails waits]:
  obtains err evs where "New e options now = failed err evs" and "filter isDial evs = []"
  | first others dockerPorts p suffix created where
      "Ports options = first # others"
      and "fst (selectPorts e (ParseIP dockerAddress) (Ports options)) = Inr dockerPorts"
      and "map_of dockerPorts first = Some p"
      and "New e options now = awaitContainer e options now dockerPorts p suffix created"
proof -
  note rules = that
  have fails: ?thesis if "New e options now = failed err evs" and "filter isDial evs = []"
    for err evs
    using that by (rule rules(1))
  show ?thesis
  proof (cases "newEnvClient e")
  case (Some err)
  then have "New e options now =
      failed (Wrap err ''MongoDB: Could not create docker client'') [EvNewEnvClient]"
    by (simp add: New_def)
  then show ?thesis by (rule fails) simp
next
  case client: None
  obtain perr evs1 where pull: "pullImage e options = (perr, evs1)"
    by (cases "pullImage e options")
  have nd1: "filter isDial evs1 = []"
    using pullImage_no_dial [of e options] pull by simp
  show ?thesis
  proof (cases perr)
    case (Some err)
    with client pull have "New e options now =
        failed (Wrap err (''Downloading image: '' @ Image options)) (EvNewEnvClient # evs1)"
      by (simp add: New_def)
    then show ?thesis by (rule fails) (simp add: nd1)
  next
    case pulled: None
    show ?thesis
    proof (cases "Ports options")
      case Nil
      with client pull pulled have "New e options now =
          failed (ErrorsNew ''Docker instance cannot be used without a external port'')
            (EvNewEnvClient # evs1)"
        by (simp add: New_def checkOptions_def)
      then show ?thesis by (rule fails) (simp add: nd1)
    next
      case (Cons first others)
      then have chk: "checkOptions options = None"
        by (simp add: checkOptions_def)
      show ?thesis
      proof (cases "newRandom e")
        case (Inl err)
        with client pull pulled chk have "New e options now =
            failed (Wrap err (''generating docker suffix for '' @ Name options))
              (EvNewEnvClient # evs1)"
          by (simp add: New_def)
        then show ?thesis by (rule fails) (simp add: nd1)
      next
        case (Inr suffix)
        obtain sel evs2 where sel: "selectPorts e (ParseIP dockerAddress) (Ports options) = (sel, evs2)"
          by (cases "selectPorts e (ParseIP dockerAddress) (Ports options)")
        have nd2: "filter isDial evs2 = []"
          using selectPorts_no_dial [of e "ParseIP dockerAddress" "Ports options"] sel by simp
        show ?thesis
        proof (cases sel)
          case (Inl err)
          with client pull pulled chk Inr sel have "New e options now =
              failed (Wrap err ''Selecting ports'') (EvNewEnvClient # evs1 @ evs2)"
            by (simp add: New_def)
          then show ?thesis by (rule fails) (simp add: nd1 nd2)
        next
          case ports: (Inr dockerPorts)
          from selectPorts_first_assigned [of e "ParseIP dockerAddress" first others dockerPorts evs2]
            sel ports Cons
          obtain p where p: "map_of dockerPorts first = Some p" by auto
          show ?thesis
          proof (cases "containerCreate e")
            case (Inl err)
            with client pull pulled chk Inr sel ports
            have "New e options now =
                failed (Wrap err (''Could not create container ('' @
                  (Name options @ ''-'' @ suffix) @ '')''))
                  (EvNewEnvClient # evs1 @ evs2 @
                     [createEvent e options dockerPorts (Name options @ ''-'' @ suffix)])"
              by (simp add: New_def Let_def createEvent_def)
            then show ?thesis by (rule fails) (simp add: nd1 nd2 createEvent_def)
          next
            case created: (Inr created)
            show ?thesis
            proof (cases "containerStart e")
              case (Some err)
              with client pull pulled chk Inr sel ports created
              have "New e options now =
                  failed (Wrap err (''Could not start container ('' @
                    (Name options @ ''-'' @ suffix) @ '')''))
                    ((EvNewEnvClient # evs1 @ evs2 @
                       [createEvent e options dockerPorts (Name options @ ''-'' @ suffix)]) @
                     [EvContainerStart (ID created)])"
                by (simp add: New_def Let_def createEvent_def)
              then show ?thesis by (rule fails) (simp add: nd1 nd2 createEvent_def)
            next
              case started: None
              have "New e options now = awaitContainer e options now dockerPorts p suffix created"
                using client pull pulled chk Inr sel ports created started Cons p
                by (simp add: New_def Let_def awaitContainer_def launchEvents_def createEvent_def
                    split: prod.splits option.splits)
              with Cons sel ports p show ?thesis
                by (intro rules(2) [of first others dockerPorts p suffix created]) simp_all
            qed
          qed
        qed
      qed
    qed
  qed
qed
qed


lemma awaitContainer_result:
  "fst (awaitContainer e options now dockerPorts p suffix created) =
     (case fst (waitContainer e (ID created) (dockerAddress @ '':'' @ Itoa p) maxWaitTime now) of
        Some err \<Rightarrow>
          Return (None, None, Some (Wrap err ''Container not started withing time limit''))
      | None \<Rightarrow>
          Return
            (Some \<lparr>Identifier = ID created, Address = ParseIP dockerAddress,
                   InfoPorts = dockerPorts\<rparr>,
             Some \<lparr>tdContainerName = Name options @ ''-'' @ suffix,
                   tdContainerID = ID created\<rparr>,
             None))"
  by (auto simp: awaitContainer_def failed_def split: prod.splits option.splits)

text \<open>
  The example scenario: the image is present, port 40000 is free, the container runs and
  the service answers.
\<close>

lemma New_example:
  "New exampleEnv exampleOptions 0 =
     (Return
        (Some \<lparr>Identifier = ''c1'', Address = ParseIP dockerAddress,
               InfoPorts = [(exampleWeb, 40000)]\<rparr>,
         Some \<lparr>tdContainerName = ''svc-6ba7b810'', tdContainerID = ''c1''\<rparr>,
         None),
      [EvNewEnvClient, EvImageList,
       EvSelectPortExcluding (ParseIP dockerAddress) \<lparr>imin = 40000, imax = 40010\<rparr> [],
       createEvent exampleEnv exampleOptions [(exampleWeb, 40000)] ''svc-6ba7b810'',
       EvContainerStart ''c1'', EvContainerInspect ''c1'',
       EvDial ''tcp'' ''127.0.0.1:40000'', EvClose])"
proof -
  have pull: "pullImage exampleEnv exampleOptions = (None, [EvImageList])"
    by (simp add: pullImage_def exampleEnv_def exampleOptions_def)
  have sel: "selectPorts exampleEnv (ParseIP dockerAddress) [exampleWeb] =
      (Inr [(exampleWeb, 40000)],
       [EvSelectPortExcluding (ParseIP dockerAddress) \<lparr>imin = 40000, imax = 40010\<rparr> []])"
    by (simp add: selectPorts_def exampleEnv_def exampleWeb_def firstFree_ex1)
  have wait: "waitContainer exampleEnv ''c1'' ''127.0.0.1:40000'' maxWaitTime 0 =
      (None, 0, [EvContainerInspect ''c1'', EvDial ''tcp'' ''127.0.0.1:40000'', EvClose])"
    by (simp add: waitContainer_def waitStarted_def waitReachable_def waitStartedLoop.simps
        waitReachableLoop.simps exampleEnv_def maxWaitTime_def Second_def)
  have hp: "dockerAddress @ CHR '':'' # Itoa 40000 = ''127.0.0.1:40000''"
    by (simp add: dockerAddress_def Itoa_40000)
  have fields: "newEnvClient exampleEnv = None" "newRandom exampleEnv = Inr ''6ba7b810''"
    "containerCreate exampleEnv = Inr \<lparr>ID = ''c1'', Warnings = []\<rparr>"
    "containerStart exampleEnv = None"
    "Ports exampleOptions = [exampleWeb]" "Name exampleOptions = ''svc''"
    by (simp_all add: exampleEnv_def exampleOptions_def)
  show ?thesis
    by (simp add: New_def Let_def pull sel wait hp fields checkOptions_def createEvent_def)
qed

text \<open>
  C6: \<open>New\<close> always returns (it does not panic), and it returns either no container
  data, no function and an error, or container data, a function and no error.
\<close>

theorem New_all_or_nothing:
  "\<exists>info td err. fst (New e options now) = Return (info, td, err) \<and>
     ((info = None \<and> td = None \<and> err \<noteq> None) \<or>
      (info \<noteq> None \<and> td \<noteq> None \<and> err = None))"
proof (cases rule: New_cases [of e options now])
  case (fails err evs)
  then show ?thesis by (simp add: failed_def)
next
  case (waits first others dockerPorts p suffix created)
  then show ?thesis
    by (simp add: awaitContainer_result split: option.splits)
qed

theorem New_all_or_nothing_witness:
  "fst (New exampleEnv exampleOptions 0) =
     Return
        (Some \<lparr>Identifier = ''c1'', Address = ParseIP dockerAddress,
               InfoPorts = [(exampleWeb, 40000)]\<rparr>,
         Some \<lparr>tdContainerName = ''svc-6ba7b810'', tdContainerID = ''c1''\<rparr>,
         None)"
  using New_all_or_nothing [of exampleEnv exampleOptions 0]
  by (simp add: New_example)

text \<open>
  C3, as the claim has it: with an empty list of ports \<open>New\<close> fails before any call
  to the engine. \<open>New\<close> checks the options after \<open>pullImage\<close>: on a host where the
  image is not listed, the call with an empty list of ports has listed the images and
  pulled the image before it returns the error.
\<close>

theorem New_empty_ports_counterexample:
  "New (exampleEnv\<lparr>imageList := Inr []\<rparr>) (exampleOptions\<lparr>Ports := []\<rparr>) 0 =
     (Return (None, None,
        Some (ErrorsNew ''Docker instance cannot be used without a external port'')),
      [EvNewEnvClient, EvImageList, EvImagePull ''busybox:latest''])"
  by (simp add: New_def pullImage_def checkOptions_def failed_def exampleEnv_def
      exampleOptions_def)

text \<open>
  C3, amended: with an empty list of ports \<open>New\<close> returns an error and neither
  container data nor a function, and calls nothing but the client constructor and, when
  that succeeds, what \<open>pullImage\<close> calls: the listing of the images, and the pull when
  the image is not listed. No port is selected and no container is created, started,
  inspected or dialled. The error is that of the first step that failed: the wrapped
  error of the client constructor, else the wrapped error of \<open>pullImage\<close>, else the
  error about the missing external port.
\<close>

theorem New_empty_ports:
  assumes "Ports options = []"
  shows "(\<exists>err. fst (New e options now) = Return (None, None, Some err)) \<and>
         fst (New e options now) =
           Return (None, None,
             Some (case newEnvClient e of
                     Some err \<Rightarrow> Wrap err ''MongoDB: Could not create docker client''
                   | None \<Rightarrow>
                       (case fst (pullImage e options) of
                          Some err \<Rightarrow> Wrap err (''Downloading image: '' @ Image options)
                        | None \<Rightarrow>
                            ErrorsNew
                              ''Docker instance cannot be used without a external port''))) \<and>
         snd (New e options now) =
           (if newEnvClient e = None then EvNewEnvClient # snd (pullImage e options)
            else [EvNewEnvClient]) \<and>
         (snd (pullImage e options) = [EvImageList] \<or>
          snd (pullImage e options) = [EvImageList, EvImagePull (Image options)])"
proof -
  have res: "fst (New e options now) =
           Return (None, None,
             Some (case newEnvClient e of
                     Some err \<Rightarrow> Wrap err ''MongoDB: Could not create docker client''
                   | None \<Rightarrow>
                       (case fst (pullImage e options) of
                          Some err \<Rightarrow> Wrap err (''Downloading image: '' @ Image options)
                        | None \<Rightarrow>
                            ErrorsNew
                              ''Docker instance cannot be used without a external port'')))"
    using assms
    by (auto simp: New_def failed_def checkOptions_def split: option.splits prod.splits)
  have evs: "snd (New e options now) =
           (if newEnvClient e = None then EvNewEnvClient # snd (pullImage e options)
            else [EvNewEnvClient])"
    using assms
    by (auto simp: New_def failed_def checkOptions_def split: option.splits prod.splits)
  from res have "\<exists>err. fst (New e options now) = Return (None, None, Some err)"
    by blast
  with res evs pullImage_events [of e options] show ?thesis by blast
qed

theorem New_empty_ports_witness:
  "New exampleEnv (exampleOptions\<lparr>Ports := []\<rparr>) 0 =
     (Return (None, None,
        Some (ErrorsNew ''Docker instance cannot be used without a external port'')),
      [EvNewEnvClient, EvImageList]) \<and>
   New (exampleEnv\<lparr>imageList := Inl (External ''engine down'')\<rparr>)
       (exampleOptions\<lparr>Ports := []\<rparr>) 0 =
     (Return (None, None,
        Some (Wrap (Wrap (External ''engine down'') ''Listing images'')
                ''Downloading image: busybox:latest'')),
      [EvNewEnvClient, EvImageList]) \<and>
   New (exampleEnv\<lparr>newEnvClient := Some (External ''no docker host'')\<rparr>)
       (exampleOptions\<lparr>Ports := []\<rparr>) 0 =
     (Return (None, None,
        Some (Wrap (External ''no docker host'') ''MongoDB: Could not create docker client'')),
      [EvNewEnvClient])"
  using New_empty_ports [of "exampleOptions\<lparr>Ports := []\<rparr>" exampleEnv 0]
    New_empty_ports [of "exampleOptions\<lparr>Ports := []\<rparr>"
      "exampleEnv\<lparr>imageList := Inl (External ''engine down'')\<rparr>" 0]
    New_empty_ports [of "exampleOptions\<lparr>Ports := []\<rparr>"
      "exampleEnv\<lparr>newEnvClient := Some (External ''no docker host'')\<rparr>" 0]
  by (simp add: prod_eq_iff pullImage_def exampleEnv_def exampleOptions_def)













end
